theory Spec2Isabelle
  imports Main
begin

section \<open>py-pglite: the PGlite process manager (\<^verbatim>\<open>src/py_pglite/manager.py\<close>)\<close>

text \<open>
  A shallow embedding of class \<^verbatim>\<open>PGliteManager\<close>. The fields of the Python object are
  the record \<open>manager\<close>; everything the methods read or change outside the object (the
  process table, the file system, the working directory, the clock, the logger) is the
  record \<open>world\<close>. What the operating system and the child process do on their own is a
  script, the record \<open>env\<close>, that each method receives as a parameter. An exception is a
  value of type \<open>exc\<close>; a method that can block for ever returns an \<open>option\<close>, with
  \<open>None\<close> for "never returns". Times are milliseconds.
\<close>

subsection \<open>Exceptions\<close>

datatype exc =
    RuntimeError string
  | TimeoutExpired
  | PsTimeoutExpired
  | OSError
  | PermissionError
  | TypeError
  | ValueError
  | OverflowError
  | UnicodeDecodeError
  | CalledProcessError
  | FileNotFoundError

subsection \<open>Strings and paths\<close>

text \<open>Python's \<^verbatim>\<open>a in b\<close> on strings: \<open>a\<close> occurs in \<open>b\<close> as a contiguous run.\<close>

fun starts_with :: "string \<Rightarrow> string \<Rightarrow> bool" where
  "starts_with [] s = True"
| "starts_with (c # cs) [] = False"
| "starts_with (c # cs) (d # ds) = (c = d \<and> starts_with cs ds)"

fun str_in :: "string \<Rightarrow> string \<Rightarrow> bool" where
  "str_in n [] = (n = [])"
| "str_in n (c # cs) = (starts_with n (c # cs) \<or> str_in n cs)"

text \<open>
  \<^verbatim>\<open>str(Path(p).parent)\<close> for a POSIX path: the root is \<^verbatim>\<open>/\<close> (or \<^verbatim>\<open>//\<close> for exactly two
  leading slashes), the parts are the components between slashes that are neither empty
  nor \<^verbatim>\<open>.\<close>, the parent drops the last part, and a path with no root and no part
  prints as \<^verbatim>\<open>.\<close>.
\<close>

fun split_on :: "char \<Rightarrow> string \<Rightarrow> string list" where
  "split_on sep [] = [[]]"
| "split_on sep (c # cs) =
     (if c = sep then [] # split_on sep cs
      else (case split_on sep cs of
              [] \<Rightarrow> [[c]]
            | p # ps \<Rightarrow> (c # p) # ps))"

fun join_with :: "string \<Rightarrow> string list \<Rightarrow> string" where
  "join_with sep [] = []"
| "join_with sep [p] = p"
| "join_with sep (p # q # ps) = p @ sep @ join_with sep (q # ps)"

definition path_root :: "string \<Rightarrow> string" where
  "path_root s =
     (let n = length (takeWhile (\<lambda>c. c = CHR ''/'') s)
      in if n = 2 then ''//'' else if 1 \<le> n then ''/'' else [])"

definition path_parts :: "string \<Rightarrow> string list" where
  "path_parts s = filter (\<lambda>p. p \<noteq> [] \<and> p \<noteq> ''.'') (split_on (CHR ''/'') s)"

definition path_str :: "string \<Rightarrow> string list \<Rightarrow> string" where
  "path_str root parts =
     (if root = [] \<and> parts = [] then ''.'' else root @ join_with ''/'' parts)"

definition path_parent :: "string \<Rightarrow> string" where
  "path_parent s = path_str (path_root s) (butlast (path_parts s))"

text \<open>\<^verbatim>\<open>str(n)\<close> for an integer, used in the timeout message.\<close>

fun digits :: "nat \<Rightarrow> string" where
  "digits n =
     (if n < 10 then [char_of (48 + n)]
      else digits (n div 10) @ [char_of (48 + n mod 10)])"

definition str_of_int :: "int \<Rightarrow> string" where
  "str_of_int i = (if i < 0 then CHR ''-'' # digits (nat (- i)) else digits (nat i))"

subsection \<open>The configuration, the manager object and the world\<close>

text \<open>
  The fields of \<^verbatim>\<open>PGliteConfig\<close> that the manager reads in the modelled methods
  (\<^verbatim>\<open>timeout\<close> is in seconds).
\<close>

record config =
  socket_path :: string
  timeout :: int
  cleanup_on_exit :: bool

text \<open>
  \<^verbatim>\<open>self.process\<close> is the handle of the child (its pid), \<^verbatim>\<open>None\<close> when there is none;
  \<^verbatim>\<open>self.work_dir\<close> and \<^verbatim>\<open>self._original_cwd\<close> are as in \<^verbatim>\<open>__init__\<close>.
\<close>

record manager =
  config :: config
  process :: "nat option"
  work_dir :: "string option"
  original_cwd :: "string option"

text \<open>
  One entry of the process table as \<^verbatim>\<open>psutil.process_iter(["pid", "name", "cmdline", "cwd"])\<close>
  shows it: \<^verbatim>\<open>cmdline\<close> and \<^verbatim>\<open>cwd\<close> are \<^verbatim>\<open>None\<close> when psutil may not read them.
  \<open>on_kill\<close> is what \<^verbatim>\<open>proc.kill(); proc.wait(timeout=5)\<close> does to this process.
\<close>

datatype kill_reaction =
    Dies
  | Raises_NoSuchProcess
  | Raises_AccessDenied
  | Outlives_wait

record proc_entry =
  pid :: nat
  cmdline :: "string list option"
  pcwd :: "string option"
  on_kill :: kill_reaction

text \<open>
  The world: the clock (ms), the working directory of the Python process, the paths that
  exist on disk, the live processes, the pid the next spawned child gets, and the lines
  written by the (module-wide) logger. \<open>probes\<close> and \<open>slept\<close> are ghost fields: the
  number of \<^verbatim>\<open>check_connection\<close> calls made and the lengths, in nanoseconds, of the
  \<^verbatim>\<open>time.sleep\<close> calls of \<^verbatim>\<open>wait_for_ready_basic\<close>.
\<close>

record world =
  clock :: nat
  cwd :: string
  files :: "string set"
  procs :: "proc_entry list"
  next_pid :: nat
  log :: "string list"
  probes :: nat
  slept :: "int list"

definition logmsg :: "string \<Rightarrow> world \<Rightarrow> world" where
  "logmsg msg w = w\<lparr>log := log w @ [msg]\<rparr>"

definition alive :: "nat \<Rightarrow> world \<Rightarrow> bool" where
  "alive p w = list_ex (\<lambda>q. pid q = p) (procs w)"

definition reap :: "nat \<Rightarrow> world \<Rightarrow> world" where
  "reap p w = w\<lparr>procs := filter (\<lambda>q. pid q \<noteq> p) (procs w)\<rparr>"

subsection \<open>\<^verbatim>\<open>_kill_existing_processes\<close>\<close>

definition launcher_name :: string where
  "launcher_name = ''pglite_manager.js''"

text \<open>
  \<^verbatim>\<open>proc.info["cmdline"] and any("pglite_manager.js" in cmd for cmd in proc.info["cmdline"])\<close>
\<close>

definition is_launcher :: "string list option \<Rightarrow> bool" where
  "is_launcher cl =
     (case cl of
        None \<Rightarrow> False
      | Some cmds \<Rightarrow> cmds \<noteq> [] \<and> list_ex (str_in launcher_name) cmds)"

text \<open>\<^verbatim>\<open>my_socket_dir in proc_cwd or proc_cwd in my_socket_dir\<close>\<close>

definition dir_match :: "string \<Rightarrow> string \<Rightarrow> bool" where
  "dir_match my_socket_dir proc_cwd =
     (str_in my_socket_dir proc_cwd \<or> str_in proc_cwd my_socket_dir)"

text \<open>
  The loop over the process table. The result is the pids on which \<^verbatim>\<open>proc.kill()\<close> was
  called, in order, and the exception that left the loop, if one did:
  a \<^verbatim>\<open>cwd\<close> of \<^verbatim>\<open>None\<close> makes the \<^verbatim>\<open>in\<close> test raise \<^verbatim>\<open>TypeError\<close>, and a process
  that outlives \<^verbatim>\<open>proc.wait(timeout=5)\<close> raises psutil's \<^verbatim>\<open>TimeoutExpired\<close>; the inner
  handler catches neither. \<^verbatim>\<open>NoSuchProcess\<close> and \<^verbatim>\<open>AccessDenied\<close> are caught and the
  loop goes on.
\<close>

fun reap_scan :: "string \<Rightarrow> proc_entry list \<Rightarrow> nat list \<times> exc option" where
  "reap_scan d [] = ([], None)"
| "reap_scan d (p # ps) =
     (if is_launcher (cmdline p) then
        (case pcwd p of
           None \<Rightarrow> ([], Some TypeError)
         | Some c \<Rightarrow>
             if dir_match d c then
               (case on_kill p of
                  Outlives_wait \<Rightarrow> ([pid p], Some PsTimeoutExpired)
                | _ \<Rightarrow> (pid p # fst (reap_scan d ps), snd (reap_scan d ps)))
             else reap_scan d ps)
      else reap_scan d ps)"

definition socket_dir :: "manager \<Rightarrow> string" where
  "socket_dir m = path_parent (socket_path (config m))"

text \<open>The pids on which this manager's reclamation calls \<^verbatim>\<open>proc.kill()\<close>.\<close>

definition killed_by :: "manager \<Rightarrow> world \<Rightarrow> nat list" where
  "killed_by m w = fst (reap_scan (socket_dir m) (procs w))"

definition kill_existing_processes :: "manager \<Rightarrow> world \<Rightarrow> world" where
  "kill_existing_processes m w =
     (let (ks, x) = reap_scan (socket_dir m) (procs w);
          w1 = w\<lparr>procs := filter (\<lambda>q. \<not> (pid q \<in> set ks \<and> on_kill q = Dies)) (procs w),
                 log := log w @ map (\<lambda>k. ''Killing existing PGlite process'') ks\<rparr>
      in case x of
           None \<Rightarrow> w1
         | Some _ \<Rightarrow> logmsg ''Error killing existing PGlite processes'' w1)"

subsection \<open>What the operating system and the child do\<close>

text \<open>
  The script of one call. \<open>setup_result\<close>, \<open>install_exc\<close> and \<open>popen_exc\<close> are the
  outcomes of \<^verbatim>\<open>_setup_work_dir\<close> (the work directory, or an exception),
  \<^verbatim>\<open>_install_dependencies\<close> and \<^verbatim>\<open>subprocess.Popen\<close>. The child spawned by the call
  exits on its own \<open>exit_at\<close> ms after the spawn and its endpoint file appears
  \<open>bind_at\<close> ms after the spawn (\<open>None\<close>: never); \<open>connect_ok t\<close> says whether a
  connect to the endpoint succeeds \<open>t\<close> ms after the spawn. \<open>child_output\<close> is what the
  child wrote, as text (decoded, newlines translated), \<open>decode_fails\<close> says that what it
  wrote cannot be decoded, and \<open>pipe_drain\<close> is the time \<^verbatim>\<open>communicate\<close> needs to read it
  (\<open>None\<close>: the pipe is stuck). \<open>exists_exc\<close> is the exception that \<^verbatim>\<open>Path.exists()\<close>
  raises on the endpoint path, if it raises: up to Python 3.11 it passes on every
  \<^verbatim>\<open>OSError\<close> but "no such file" and its like, for instance \<^verbatim>\<open>PermissionError\<close> for a
  directory that may not be searched; \<open>unlink_fails\<close> says that \<^verbatim>\<open>unlink()\<close> raises.
  \<open>term_exit\<close> and \<open>kill_exit\<close> are the times the child takes to exit
  after \<^verbatim>\<open>terminate()\<close> and after \<^verbatim>\<open>kill()\<close> (\<open>None\<close>: it does not exit), and
  \<open>terminate_exc\<close>, \<open>kill_exc\<close> the exceptions these calls raise, if any.
\<close>

record env =
  exists_exc :: "exc option"
  unlink_fails :: bool
  setup_result :: "exc + string"
  install_exc :: "exc option"
  popen_exc :: "exc option"
  exit_at :: "nat option"
  bind_at :: "nat option"
  connect_ok :: "nat \<Rightarrow> bool"
  child_output :: string
  decode_fails :: bool
  pipe_drain :: "nat option"
  terminate_exc :: "exc option"
  term_exit :: "nat option"
  kill_exc :: "exc option"
  kill_exit :: "nat option"

definition reached :: "nat option \<Rightarrow> nat \<Rightarrow> bool" where
  "reached at el = (case at of None \<Rightarrow> False | Some d \<Rightarrow> d \<le> el)"

text \<open>
  \<^verbatim>\<open>time.sleep(ms)\<close> during startup: the clock advances, and what the child has done
  by then (bound its endpoint, exited) shows in the world. \<open>t0\<close> is the time of the spawn.
\<close>

definition sleep_tick :: "env \<Rightarrow> manager \<Rightarrow> nat \<Rightarrow> nat \<Rightarrow> nat \<Rightarrow> world \<Rightarrow> world" where
  "sleep_tick e m p t0 ms w =
     (let c = clock w + ms; el = c - t0
      in w\<lparr>clock := c,
            files := (if reached (bind_at e) el
                      then insert (socket_path (config m)) (files w) else files w),
            procs := (if reached (exit_at e) el
                      then filter (\<lambda>q. pid q \<noteq> p) (procs w) else procs w)\<rparr>)"

text \<open>
  \<^verbatim>\<open>process.wait(timeout=tmo)\<close> right after a signal that makes the child exit after
  \<open>dur\<close>: it returns at once for a child that has exited already, returns when the
  child exits within the timeout, and raises \<^verbatim>\<open>TimeoutExpired\<close> otherwise.
\<close>

definition proc_wait :: "nat \<Rightarrow> nat option \<Rightarrow> nat \<Rightarrow> world \<Rightarrow> (exc + unit) \<times> world" where
  "proc_wait tmo dur p w =
     (if alive p w then
        (case dur of
           None \<Rightarrow> (Inl TimeoutExpired, w\<lparr>clock := clock w + tmo\<rparr>)
         | Some d \<Rightarrow>
             if d \<le> tmo then (Inr (), reap p (w\<lparr>clock := clock w + d\<rparr>))
             else (Inl TimeoutExpired, w\<lparr>clock := clock w + tmo\<rparr>))
      else (Inr (), w))"

text \<open>\<^verbatim>\<open>process.wait()\<close> with no timeout: it returns when the child exits, if it does.\<close>

definition proc_wait_forever :: "nat option \<Rightarrow> nat \<Rightarrow> world \<Rightarrow> world option" where
  "proc_wait_forever dur p w =
     (if alive p w then
        (case dur of
           None \<Rightarrow> None
         | Some d \<Rightarrow> Some (reap p (w\<lparr>clock := clock w + d\<rparr>)))
      else Some w)"

text \<open>
  \<^verbatim>\<open>process.communicate(timeout=tmo)\<close>: the first component of the pair it returns. The
  pipe is in text mode: once everything is read, within the timeout, the bytes are
  decoded, which raises \<^verbatim>\<open>UnicodeDecodeError\<close> for bytes that are not text.
\<close>

definition communicate :: "env \<Rightarrow> nat \<Rightarrow> world \<Rightarrow> (exc + string) \<times> world" where
  "communicate e tmo w =
     (case pipe_drain e of
        None \<Rightarrow> (Inl TimeoutExpired, w\<lparr>clock := clock w + tmo\<rparr>)
      | Some d \<Rightarrow>
          if d \<le> tmo then
            (if decode_fails e then (Inl UnicodeDecodeError, w\<lparr>clock := clock w + d\<rparr>)
             else (Inr (child_output e), w\<lparr>clock := clock w + d\<rparr>))
          else (Inl TimeoutExpired, w\<lparr>clock := clock w + tmo\<rparr>))"

subsection \<open>\<^verbatim>\<open>_cleanup_socket\<close>\<close>

text \<open>
  \<^verbatim>\<open>socket_path.exists()\<close> is called outside the \<^verbatim>\<open>try\<close> statement: what it raises leaves
  the method. What \<^verbatim>\<open>unlink()\<close> raises is caught and logged.
\<close>

definition cleanup_socket :: "env \<Rightarrow> manager \<Rightarrow> world \<Rightarrow> (exc + unit) \<times> world" where
  "cleanup_socket e m w =
     (let sp = socket_path (config m)
      in case exists_exc e of
           Some x \<Rightarrow> (Inl x, w)
         | None \<Rightarrow>
             if sp \<in> files w then
               (if unlink_fails e then (Inr (), logmsg ''Failed to clean up socket'' w)
                else (Inr (), logmsg ''Cleaned up socket'' (w\<lparr>files := files w - {sp}\<rparr>)))
             else (Inr (), w))"

subsection \<open>\<^verbatim>\<open>start\<close>\<close>

text \<open>
  \<^verbatim>\<open>subprocess.Popen(["node", "pglite_manager.js"], ...)\<close>: the child gets a pid that no
  process has or had, and runs in the current working directory.
\<close>

definition fresh_pid :: "world \<Rightarrow> nat" where
  "fresh_pid w = fold max (map (\<lambda>q. Suc (pid q)) (procs w)) (next_pid w)"

definition spawn :: "manager \<Rightarrow> world \<Rightarrow> manager \<times> world" where
  "spawn m w =
     (let p = fresh_pid w
      in (m\<lparr>process := Some p\<rparr>,
          w\<lparr>procs := procs w @
                 [\<lparr>pid = p, cmdline = Some [''node'', launcher_name],
                   pcwd = Some (cwd w), on_kill = Dies\<rparr>],
            next_pid := Suc p\<rparr>))"

text \<open>How the \<^verbatim>\<open>while ... else\<close> loop is left.\<close>

datatype loop_exit = Broke | Raised exc | Exhausted

text \<open>
  \<^verbatim>\<open>stdout[:1000] if stdout else "No output"\<close>, and \<^verbatim>\<open>"Process output timeout"\<close> in the
  handler of \<^verbatim>\<open>subprocess.TimeoutExpired\<close>.
\<close>

definition died_output :: "exc + string \<Rightarrow> exc + string" where
  "died_output r =
     (case r of
        Inr out \<Rightarrow> Inr (if out \<noteq> [] then take 1000 out else ''No output'')
      | Inl x \<Rightarrow> if x = TimeoutExpired then Inr ''Process output timeout'' else Inl x)"

definition died_message :: "string \<Rightarrow> string" where
  "died_message output = ''PGlite process died during startup. Output: '' @ output"

definition timeout_message :: "manager \<Rightarrow> string" where
  "timeout_message m =
     ''PGlite server failed to start within '' @ str_of_int (timeout (config m)) @ '' seconds''"

text \<open>
  The readiness loop, \<^verbatim>\<open>while time.time() - start_time < self.config.timeout\<close>. \<open>p\<close> is
  the child, \<open>t0\<close> is \<^verbatim>\<open>start_time\<close> and \<open>ready_logged\<close> the flag of that name.
\<close>

function wait_loop ::
  "env \<Rightarrow> manager \<Rightarrow> nat \<Rightarrow> nat \<Rightarrow> bool \<Rightarrow> world \<Rightarrow> loop_exit \<times> world" where
  "wait_loop e m p t0 ready_logged w =
     (if int (clock w) - int t0 < 1000 * timeout (config m) then
        (if \<not> alive p w then
           (case communicate e 2000 w of (r, w1) \<Rightarrow>
              (case died_output r of
                 Inr output \<Rightarrow> (Raised (RuntimeError (died_message output)), w1)
               | Inl x \<Rightarrow> (Raised x, w1)))
         else if socket_path (config m) \<in> files w \<and> \<not> ready_logged then
           (let w1 = logmsg ''PGlite socket created, server should be ready...'' w
            in if connect_ok e (clock w1 - t0)
               then (Broke, logmsg ''PGlite server started successfully'' w1)
               else wait_loop e m p t0 True (sleep_tick e m p t0 500 w1))
         else wait_loop e m p t0 ready_logged (sleep_tick e m p t0 500 w))
      else (Exhausted, w))"
  by pat_completeness auto
termination
  by (relation "measure (\<lambda>(e, m, p, t0, rl, w).
        nat (1000 * timeout (config m) + int t0 - int (clock w)))")
     (auto simp: sleep_tick_def logmsg_def Let_def)

text \<open>
  The \<^verbatim>\<open>else\<close> clause of the loop: the timeout. The result is the exception raised and
  the world then, or \<open>None\<close> when \<^verbatim>\<open>self.process.wait()\<close> never returns.
\<close>

definition loop_else :: "env \<Rightarrow> manager \<Rightarrow> nat \<Rightarrow> world \<Rightarrow> (exc \<times> world) option" where
  "loop_else e m p w =
     (if alive p w then
        (let w1 = logmsg ''PGlite server startup timeout, terminating...'' w
         in case terminate_exc e of
              Some x \<Rightarrow> Some (x, w1)
            | None \<Rightarrow>
                (case proc_wait 5000 (term_exit e) p w1 of
                   (Inr u, w2) \<Rightarrow> Some (RuntimeError (timeout_message m), w2)
                 | (Inl x, w2) \<Rightarrow>
                     if x = TimeoutExpired then
                       (let w3 = logmsg ''Force killing PGlite process...'' w2
                        in case kill_exc e of
                             Some y \<Rightarrow> Some (y, w3)
                           | None \<Rightarrow>
                               (case proc_wait_forever (kill_exit e) p w3 of
                                  None \<Rightarrow> None
                                | Some w4 \<Rightarrow> Some (RuntimeError (timeout_message m), w4)))
                     else Some (x, w2)))
      else Some (RuntimeError (timeout_message m), w))"

text \<open>
  The body of the \<^verbatim>\<open>try\<close> statement. The environment handed to the child
  (\<^verbatim>\<open>NODE_OPTIONS\<close>, \<^verbatim>\<open>NODE_PATH\<close>) plays no part in what the manager does next and is
  left out.
\<close>

definition start_try ::
  "env \<Rightarrow> manager \<Rightarrow> world \<Rightarrow> ((exc + unit) \<times> manager \<times> world) option" where
  "start_try e m w =
     (case install_exc e of
        Some x \<Rightarrow> Some (Inl x, m, w)
      | None \<Rightarrow>
          (let w1 = logmsg ''Starting PGlite server...'' w
           in case popen_exc e of
                Some x \<Rightarrow> Some (Inl x, m, w1)
              | None \<Rightarrow>
                  (case spawn m w1 of (m1, w2) \<Rightarrow>
                     (let p = the (process m1);
                          t0 = clock w2
                      in case wait_loop e m1 p t0 False (sleep_tick e m1 p t0 0 w2) of
                           (Broke, w3) \<Rightarrow> Some (Inr (), m1, w3)
                         | (Raised x, w3) \<Rightarrow> Some (Inl x, m1, w3)
                         | (Exhausted, w3) \<Rightarrow>
                             (case loop_else e m1 p w3 of
                                None \<Rightarrow> None
                              | Some (x, w4) \<Rightarrow> Some (Inl x, m1, w4))))))"

text \<open>The \<^verbatim>\<open>finally\<close> clause: \<^verbatim>\<open>if self._original_cwd: os.chdir(self._original_cwd)\<close>.\<close>

definition restore_cwd :: "manager \<Rightarrow> world \<Rightarrow> world" where
  "restore_cwd m w =
     (case original_cwd m of
        None \<Rightarrow> w
      | Some d \<Rightarrow> if d \<noteq> [] then w\<lparr>cwd := d\<rparr> else w)"

definition start ::
  "env \<Rightarrow> manager \<Rightarrow> world \<Rightarrow> ((exc + unit) \<times> manager \<times> world) option" where
  "start e m w =
     (if process m \<noteq> None then
        Some (Inr (), m, logmsg ''PGlite process already running'' w)
      else
        (let w1 = kill_existing_processes m w
         in case cleanup_socket e m w1 of
              (Inl x, w2) \<Rightarrow> Some (Inl x, m, w2)
            | (Inr u, w2) \<Rightarrow>
                (case setup_result e of
                   Inl x \<Rightarrow> Some (Inl x, m, w2)
                 | Inr wd \<Rightarrow>
                     (let m1 = m\<lparr>work_dir := Some wd, original_cwd := Some (cwd w2)\<rparr>;
                          w3 = w2\<lparr>cwd := wd\<rparr>
                      in case start_try e m1 w3 of
                           None \<Rightarrow> None
                         | Some (r, m2, w4) \<Rightarrow> Some (r, m2, restore_cwd m2 w4)))))"

subsection \<open>\<^verbatim>\<open>stop\<close>\<close>

text \<open>\<^verbatim>\<open>process.terminate()\<close> and \<^verbatim>\<open>process.kill()\<close>: the signal is sent, or the call raises.\<close>

definition send_signal :: "exc option \<Rightarrow> world \<Rightarrow> (exc + unit) \<times> world" where
  "send_signal failure w = (case failure of None \<Rightarrow> (Inr (), w) | Some x \<Rightarrow> (Inl x, w))"

text \<open>
  The body of the outer \<^verbatim>\<open>try\<close> statement of \<^verbatim>\<open>stop\<close>, with its two inner handlers of
  \<^verbatim>\<open>subprocess.TimeoutExpired\<close>. An exception that no inner handler catches is the
  result \<open>Inl\<close>.
\<close>

definition stop_try :: "env \<Rightarrow> nat \<Rightarrow> world \<Rightarrow> (exc + unit) \<times> world" where
  "stop_try e p w =
     (let w1 = logmsg ''Sending SIGTERM to PGlite process...'' w
      in case send_signal (terminate_exc e) w1 of
           (Inl x, w2) \<Rightarrow> (Inl x, w2)
         | (Inr u, w2) \<Rightarrow>
             (case proc_wait 5000 (term_exit e) p w2 of
                (Inr u, w3) \<Rightarrow> (Inr (), logmsg ''PGlite server stopped gracefully'' w3)
              | (Inl x, w3) \<Rightarrow>
                  if x = TimeoutExpired then
                    (let w4 = logmsg ''PGlite process didn't stop gracefully, force killing...'' w3
                     in case send_signal (kill_exc e) w4 of
                          (Inl y, w5) \<Rightarrow> (Inl y, w5)
                        | (Inr u, w5) \<Rightarrow>
                            (case proc_wait 2000 (kill_exit e) p w5 of
                               (Inr u, w6) \<Rightarrow>
                                 (Inr (), logmsg ''PGlite server stopped forcefully'' w6)
                             | (Inl y, w6) \<Rightarrow>
                                 if y = TimeoutExpired
                                 then (Inr (), logmsg ''Failed to kill PGlite process!'' w6)
                                 else (Inl y, w6)))
                  else (Inl x, w3)))"

text \<open>
  Every value of \<open>exc\<close> is an instance of Python's \<^verbatim>\<open>Exception\<close>, so the clause
  \<^verbatim>\<open>except Exception as e\<close> catches whatever the body raises and logs it. The
  \<^verbatim>\<open>finally\<close> clause follows in every case; what \<^verbatim>\<open>_cleanup_socket\<close> raises there
  leaves \<^verbatim>\<open>stop\<close>, after the handle has been cleared.
\<close>

definition stop :: "env \<Rightarrow> manager \<Rightarrow> world \<Rightarrow> (exc + unit) \<times> manager \<times> world" where
  "stop e m w =
     (case process m of
        None \<Rightarrow> (Inr (), m, w)
      | Some p \<Rightarrow>
          (case stop_try e p w of (r, w1) \<Rightarrow>
             (let w2 = (case r of
                          Inl x \<Rightarrow> logmsg ''Error stopping PGlite'' w1
                        | Inr u \<Rightarrow> w1);
                  m1 = m\<lparr>process := None\<rparr>
              in if cleanup_on_exit (config m1) then
                   (case cleanup_socket e m1 w2 of
                      (Inl x, w3) \<Rightarrow> (Inl x, m1, w3)
                    | (Inr u, w3) \<Rightarrow> (Inr (), m1, w3))
                 else (Inr (), m1, w2))))"

subsection \<open>\<^verbatim>\<open>is_running\<close> and the accessors\<close>

text \<open>\<^verbatim>\<open>self.process is not None and self.process.poll() is None\<close>\<close>

definition is_running :: "manager \<Rightarrow> world \<Rightarrow> bool" where
  "is_running m w = (case process m of None \<Rightarrow> False | Some p \<Rightarrow> alive p w)"

definition not_running :: exc where
  "not_running = RuntimeError ''PGlite server is not running. Call start() first.''"

text \<open>
  Modelled from the spec: the methods \<^verbatim>\<open>get_connection_string\<close>, \<^verbatim>\<open>get_dsn\<close> and
  \<^verbatim>\<open>get_psycopg_uri\<close> of \<^verbatim>\<open>PGliteConfig\<close>, whose module is not among the sources. The spec
  says of the strings they return only that each references the configured endpoint
  path: the model puts the path between a prefix and a suffix that are parameters.
\<close>

record formats =
  conn_pre :: string
  conn_post :: string
  dsn_pre :: string
  dsn_post :: string
  uri_pre :: string
  uri_post :: string

definition config_get_connection_string :: "formats \<Rightarrow> config \<Rightarrow> string" where
  "config_get_connection_string f c = conn_pre f @ socket_path c @ conn_post f"

definition config_get_dsn :: "formats \<Rightarrow> config \<Rightarrow> string" where
  "config_get_dsn f c = dsn_pre f @ socket_path c @ dsn_post f"

definition config_get_psycopg_uri :: "formats \<Rightarrow> config \<Rightarrow> string" where
  "config_get_psycopg_uri f c = uri_pre f @ socket_path c @ uri_post f"

definition get_connection_string :: "formats \<Rightarrow> manager \<Rightarrow> world \<Rightarrow> exc + string" where
  "get_connection_string f m w =
     (if \<not> is_running m w then Inl not_running
      else Inr (config_get_connection_string f (config m)))"

definition get_dsn :: "formats \<Rightarrow> manager \<Rightarrow> world \<Rightarrow> exc + string" where
  "get_dsn f m w =
     (if \<not> is_running m w then Inl not_running
      else Inr (config_get_dsn f (config m)))"

definition get_psycopg_uri :: "formats \<Rightarrow> manager \<Rightarrow> world \<Rightarrow> exc + string" where
  "get_psycopg_uri f m w =
     (if \<not> is_running m w then Inl not_running
      else Inr (config_get_psycopg_uri f (config m)))"

subsection \<open>\<^verbatim>\<open>wait_for_ready_basic\<close> and \<^verbatim>\<open>wait_for_ready\<close>\<close>

text \<open>
  The argument of \<^verbatim>\<open>time.sleep\<close> is a float, in seconds. \<^verbatim>\<open>time.sleep\<close> turns it into a
  signed 64-bit number of nanoseconds first: \<open>Nanos n\<close> is a finite float that this
  conversion rounds to \<open>n\<close> nanoseconds, and the other three values are the infinities
  and not-a-number. The conversion raises \<^verbatim>\<open>ValueError\<close> for not-a-number and
  \<^verbatim>\<open>OverflowError\<close> for what does not fit in 64 bits; then a negative duration raises
  \<^verbatim>\<open>ValueError\<close>. The clock of the world has millisecond resolution.
\<close>

datatype secs = Nanos int | PosInf | NegInf | NaN

definition py_sleep :: "secs \<Rightarrow> world \<Rightarrow> (exc + unit) \<times> world" where
  "py_sleep d w =
     (case d of
        NaN \<Rightarrow> (Inl ValueError, w)
      | PosInf \<Rightarrow> (Inl OverflowError, w)
      | NegInf \<Rightarrow> (Inl OverflowError, w)
      | Nanos n \<Rightarrow>
          if n < - (2 ^ 63) \<or> 2 ^ 63 - 1 < n then (Inl OverflowError, w)
          else if n < 0 then (Inl ValueError, w)
          else (Inr (), w\<lparr>clock := clock w + nat (n div 1000000), slept := slept w @ [n]\<rparr>))"

text \<open>
  The body of the \<^verbatim>\<open>try\<close> statement of one attempt. \<open>check attempt\<close> is what
  \<^verbatim>\<open>check_connection(self.config.get_dsn())\<close> does at that attempt (the function is in
  \<^verbatim>\<open>utils\<close>, not among the sources): it returns a truth value or raises. \<open>Inr True\<close> is
  the \<^verbatim>\<open>return True\<close>.
\<close>

definition attempt_try :: "(nat \<Rightarrow> exc + bool) \<Rightarrow> nat \<Rightarrow> world \<Rightarrow> (exc + bool) \<times> world" where
  "attempt_try check attempt w =
     (let w1 = w\<lparr>probes := Suc (probes w)\<rparr>
      in case check attempt of
           Inl x \<Rightarrow> (Inl x, w1)
         | Inr ok \<Rightarrow>
             if ok then
               (case py_sleep (Nanos 200000000) (logmsg ''Database ready'' w1) of
                  (Inl x, w2) \<Rightarrow> (Inl x, w2)
                | (Inr u, w2) \<Rightarrow> (Inr True, w2))
             else (Inr False, w1))"

text \<open>
  \<^verbatim>\<open>for attempt in range(max_retries)\<close>, over the attempts still to make. The \<^verbatim>\<open>time.sleep(delay)\<close> between attempts is outside the \<^verbatim>\<open>try\<close>
  statement: what it raises leaves the method.
\<close>

fun ready_loop ::
  "(nat \<Rightarrow> exc + bool) \<Rightarrow> int \<Rightarrow> secs \<Rightarrow> nat list \<Rightarrow> world \<Rightarrow> (exc + bool) \<times> world" where
  "ready_loop check max_retries delay [] w = (Inr False, w)"
| "ready_loop check max_retries delay (attempt # rest) w =
     (case attempt_try check attempt w of (r, w1) \<Rightarrow>
        if r = Inr True then (Inr True, w1)
        else
          (let w2 = (case r of
                       Inl x \<Rightarrow> logmsg ''Database not ready'' w1
                     | Inr u \<Rightarrow> w1)
           in if int attempt < max_retries - 1 then
                (case py_sleep delay w2 of
                   (Inl x, w3) \<Rightarrow> (Inl x, w3)
                 | (Inr u, w3) \<Rightarrow> ready_loop check max_retries delay rest w3)
              else ready_loop check max_retries delay rest
                     (logmsg ''Database failed to become ready'' w2)))"

definition wait_for_ready_basic ::
  "(nat \<Rightarrow> exc + bool) \<Rightarrow> int \<Rightarrow> secs \<Rightarrow> world \<Rightarrow> (exc + bool) \<times> world" where
  "wait_for_ready_basic check max_retries delay w =
     ready_loop check max_retries delay [0..<nat max_retries] w"

definition wait_for_ready ::
  "(nat \<Rightarrow> exc + bool) \<Rightarrow> int \<Rightarrow> secs \<Rightarrow> world \<Rightarrow> (exc + bool) \<times> world" where
  "wait_for_ready check max_retries delay w = wait_for_ready_basic check max_retries delay w"

subsection \<open>\<^verbatim>\<open>restart\<close>\<close>

text \<open>
  \<^verbatim>\<open>if self.is_running(): self.stop()\<close>, then \<^verbatim>\<open>self.start()\<close>. \<open>e0\<close> is the script of the
  child that is stopped, \<open>e\<close> the script of the start.
\<close>

definition restart ::
  "env \<Rightarrow> env \<Rightarrow> manager \<Rightarrow> world \<Rightarrow> ((exc + unit) \<times> manager \<times> world) option" where
  "restart e0 e m w =
     (if is_running m w then
        (case stop e0 m w of
           (Inl x, m1, w1) \<Rightarrow> Some (Inl x, m1, w1)
         | (Inr u, m1, w1) \<Rightarrow> start e m1 w1)
      else start e m w)"

subsection \<open>Concrete configurations, worlds and scripts\<close>

text \<open>
  A manager that has not started yet, with a startup timeout of two seconds; a world with
  no process and no file; and the script of a healthy child, whose endpoint file appears
  300 ms after the spawn and accepts connections from then on.
\<close>

definition cfg0 :: config where
  "cfg0 = \<lparr>socket_path = ''/tmp/pg/.s.PGSQL.5432'', timeout = 2, cleanup_on_exit = True\<rparr>"

definition mgr0 :: manager where
  "mgr0 = \<lparr>config = cfg0, process = None, work_dir = None, original_cwd = None\<rparr>"

definition world0 :: world where
  "world0 = \<lparr>clock = 0, cwd = ''/home/u'', files = {}, procs = [], next_pid = 1,
              log = [], probes = 0, slept = []\<rparr>"

definition healthy :: env where
  "healthy = \<lparr>exists_exc = None, unlink_fails = False, setup_result = Inr ''/tmp/work'',
               install_exc = None, popen_exc = None, exit_at = None, bind_at = Some 300,
               connect_ok = (\<lambda>t. True), child_output = [], decode_fails = False,
               pipe_drain = Some 0,
               terminate_exc = None, term_exit = Some 100, kill_exc = None,
               kill_exit = Some 10\<rparr>"

text \<open>
  A child whose endpoint file is there from the spawn on, but which accepts connections
  only from 500 ms after the spawn.
\<close>

definition late_listener :: env where
  "late_listener = healthy\<lparr>bind_at := Some 0, connect_ok := (\<lambda>t. 500 \<le> t)\<rparr>"

text \<open>A child that writes \<^verbatim>\<open>boom\<close> and exits, at once or 900 ms after the spawn.\<close>

definition crashing :: env where
  "crashing = healthy\<lparr>exit_at := Some 0, bind_at := None, child_output := ''boom''\<rparr>"

definition crashing_later :: env where
  "crashing_later = healthy\<lparr>exit_at := Some 900, bind_at := None, child_output := ''boom''\<rparr>"

text \<open>
  A child that never creates the endpoint file, never exits on its own, does not react to
  \<^verbatim>\<open>SIGTERM\<close> and is not reaped after \<^verbatim>\<open>SIGKILL\<close> (a process blocked in the kernel).
\<close>

definition stuck :: env where
  "stuck = healthy\<lparr>bind_at := None, term_exit := None, kill_exit := None\<rparr>"

text \<open>A child for which \<^verbatim>\<open>terminate()\<close> raises.\<close>

definition unsignalable :: env where
  "unsignalable = healthy\<lparr>terminate_exc := Some OSError, unlink_fails := True\<rparr>"

text \<open>
  An endpoint path in a directory that may not be searched: \<^verbatim>\<open>Path.exists()\<close> raises
  \<^verbatim>\<open>PermissionError\<close> on it.
\<close>

definition unsearchable :: env where
  "unsearchable = healthy\<lparr>exists_exc := Some PermissionError\<rparr>"

text \<open>
  A child that never listens, writes 1200 characters and exits 900 ms after the spawn;
  and a child that writes \<^verbatim>\<open>boom\<close> and exits 1600 ms after the spawn, after the last
  poll that a timeout of two seconds allows.
\<close>

definition crashing_verbose :: env where
  "crashing_verbose =
     healthy\<lparr>exit_at := Some 900, bind_at := None, connect_ok := (\<lambda>t. False),
             child_output := replicate 1200 CHR ''x''\<rparr>"

definition crashing_last :: env where
  "crashing_last = healthy\<lparr>exit_at := Some 1600, bind_at := None, child_output := ''boom''\<rparr>"

text \<open>
  Two managers whose endpoint directories are \<^verbatim>\<open>/tmp/pg\<close> and \<^verbatim>\<open>/tmp/pg2\<close>, and a world
  in which the second has a running child, with working directory \<^verbatim>\<open>/tmp/pg2\<close>.
\<close>

definition mgrA :: manager where
  "mgrA = mgr0"

definition mgrB :: manager where
  "mgrB = \<lparr>config = cfg0\<lparr>socket_path := ''/tmp/pg2/.s.PGSQL.5432''\<rparr>, process = Some 7,
            work_dir = Some ''/tmp/pg2'', original_cwd = Some ''/home/u''\<rparr>"

definition childB :: proc_entry where
  "childB = \<lparr>pid = 7, cmdline = Some [''node'', ''pglite_manager.js''],
              pcwd = Some ''/tmp/pg2'', on_kill = Dies\<rparr>"

definition worldB :: world where
  "worldB = world0\<lparr>procs := [childB], next_pid := 8\<rparr>"

text \<open>
  The value of the variable \<^verbatim>\<open>output\<close> in the branch of \<^verbatim>\<open>start\<close> for a child that has
  exited, as a function of what the child wrote and of how long reading it takes.
\<close>

definition diagnostic :: "env \<Rightarrow> string" where
  "diagnostic e =
     (case pipe_drain e of
        None \<Rightarrow> ''Process output timeout''
      | Some d \<Rightarrow>
          if d \<le> 2000
          then (if child_output e \<noteq> [] then take 1000 (child_output e) else ''No output'')
          else ''Process output timeout'')"

section \<open>Properties\<close>

text \<open>
  The equation of the readiness loop rewrites the loop into itself: it is used one step
  at a time, and for running the loop on concrete inputs.
\<close>

declare wait_loop.simps [simp del]

lemmas run_defs =
  wait_loop.simps start_def kill_existing_processes_def socket_dir_def killed_by_def
  path_parent_def path_root_def path_parts_def path_str_def is_launcher_def
  launcher_name_def dir_match_def cleanup_socket_def start_try_def spawn_def fresh_pid_def
  logmsg_def sleep_tick_def reached_def alive_def loop_else_def proc_wait_def
  proc_wait_forever_def reap_def timeout_message_def str_of_int_def restore_cwd_def
  communicate_def died_output_def died_message_def is_running_def stop_def stop_try_def
  send_signal_def restart_def wait_for_ready_basic_def wait_for_ready_def attempt_try_def
  py_sleep_def Let_def

lemmas fixture_defs =
  cfg0_def mgr0_def world0_def healthy_def late_listener_def crashing_def
  crashing_later_def stuck_def unsignalable_def unsearchable_def crashing_verbose_def
  crashing_last_def mgrA_def mgrB_def childB_def worldB_def

lemma char_of_50: "char_of (50::nat) = CHR ''2''"
  by code_simp

subsection \<open>Frame lemmas\<close>

lemma logmsg_clock [simp]: "clock (logmsg s w) = clock w"
  by (simp add: logmsg_def)

lemma logmsg_cwd [simp]: "cwd (logmsg s w) = cwd w"
  by (simp add: logmsg_def)

lemma logmsg_files [simp]: "files (logmsg s w) = files w"
  by (simp add: logmsg_def)

lemma logmsg_procs [simp]: "procs (logmsg s w) = procs w"
  by (simp add: logmsg_def)

lemma kill_existing_processes_cwd [simp]: "cwd (kill_existing_processes m w) = cwd w"
  by (simp add: kill_existing_processes_def Let_def split: prod.splits option.splits)

lemma kill_existing_processes_clock [simp]: "clock (kill_existing_processes m w) = clock w"
  by (simp add: kill_existing_processes_def Let_def split: prod.splits option.splits)

lemma cleanup_socket_frame:
  "cleanup_socket e m w = (r, w') \<Longrightarrow>
   cwd w' = cwd w \<and> clock w' = clock w \<and> set (log w) \<subseteq> set (log w')"
  by (auto simp: cleanup_socket_def logmsg_def Let_def split: option.splits if_splits)

lemma cleanup_socket_returns:
  "exists_exc e = None \<Longrightarrow>
   \<exists>w'. cleanup_socket e m w = (Inr (), w')
      \<and> files w' = (if unlink_fails e then files w else files w - {socket_path (config m)})"
  by (auto simp: cleanup_socket_def Let_def)

lemma cleanup_socket_raises:
  "exists_exc e = Some x \<Longrightarrow> cleanup_socket e m w = (Inl x, w)"
  by (simp add: cleanup_socket_def)

lemma restore_cwd_clock [simp]: "clock (restore_cwd m w) = clock w"
  by (simp add: restore_cwd_def split: option.splits)

lemma start_try_original_cwd:
  "start_try e m w = Some (r, m', w') \<Longrightarrow> original_cwd m' = original_cwd m"
  by (auto simp: start_try_def spawn_def Let_def
        split: option.splits prod.splits loop_exit.splits)

lemma start_try_returns:
  "kill_exit e \<noteq> None \<Longrightarrow> start_try e m w \<noteq> None"
  by (auto simp: start_try_def loop_else_def proc_wait_forever_def Let_def
        split: option.splits prod.splits loop_exit.splits sum.splits)

lemma start_returns_when_kill_reaps:
  assumes "kill_exit e \<noteq> None"
  shows "start e m w \<noteq> None"
  unfolding start_def Let_def
  using start_try_returns[OF assms]
  by (simp split: sum.splits option.splits prod.splits del: not_None_eq)

lemma start_with_handle:
  "process m = Some p \<Longrightarrow>
   start e m w = Some (Inr (), m, logmsg ''PGlite process already running'' w)"
  by (simp add: start_def)

lemma start_try_keeps_handle:
  "start_try e m w = Some (r, m', w') \<Longrightarrow> install_exc e = None \<Longrightarrow> popen_exc e = None \<Longrightarrow>
   process m' \<noteq> None"
  by (auto simp: start_try_def spawn_def Let_def
        split: option.splits prod.splits loop_exit.splits)

text \<open>
  After a \<^verbatim>\<open>start\<close> that has spawned a child and raised, every later \<^verbatim>\<open>start\<close> on the
  object returns at once.
\<close>

lemma failed_start_blocks_next_start:
  assumes "start e m w = Some (Inl x, m', w')"
    and "exists_exc e = None"
    and "setup_result e = Inr wd" and "install_exc e = None" and "popen_exc e = None"
  shows "start e' m' w'' = Some (Inr (), m', logmsg ''PGlite process already running'' w'')"
proof (cases "process m")
  case (Some p)
  with assms(1) show ?thesis by (simp add: start_def)
next
  case None
  obtain w2 where c: "cleanup_socket e m (kill_existing_processes m w) = (Inr (), w2)"
    using cleanup_socket_returns[OF assms(2)] by blast
  with None assms obtain w4 where "start_try e
      (m\<lparr>work_dir := Some wd, original_cwd := Some (cwd w2)\<rparr>) (w2\<lparr>cwd := wd\<rparr>)
        = Some (Inl x, m', w4)"
    by (auto simp: start_def Let_def split: option.splits)
  from start_try_keeps_handle[OF this assms(4,5)] show ?thesis
    by (auto simp: start_def)
qed

subsection \<open>The working directory\<close>

text \<open>
  Claim C10. \<^verbatim>\<open>start\<close> changes into the work directory before it spawns the child, and
  every call that returns, normally or with an exception of any kind, leaves the working
  directory as it found it. \<^verbatim>\<open>os.getcwd()\<close> returns an absolute path, which is not the
  empty string; the \<^verbatim>\<open>finally\<close> clause tests the saved path for truth, hence the
  hypothesis.
\<close>

theorem start_restores_cwd:
  assumes "start e m w = Some (r, m', w')" and "cwd w \<noteq> []"
  shows "cwd w' = cwd w"
proof (cases "process m")
  case (Some p)
  with assms(1) show ?thesis by (auto simp: start_def)
next
  case None
  obtain r2 w2 where c: "cleanup_socket e m (kill_existing_processes m w) = (r2, w2)"
    by (cases "cleanup_socket e m (kill_existing_processes m w)")
  from cleanup_socket_frame[OF c] have c2: "cwd w2 = cwd w" by simp
  show ?thesis
  proof (cases r2)
    case (Inl x)
    with None assms(1) c c2 show ?thesis
      by (auto simp: start_def Let_def)
  next
    case ok: (Inr u)
    show ?thesis
    proof (cases "setup_result e")
      case (Inl x)
      with None ok assms(1) c c2 show ?thesis
        by (auto simp: start_def Let_def)
    next
      case (Inr wd)
      define m1 where "m1 = m\<lparr>work_dir := Some wd, original_cwd := Some (cwd w2)\<rparr>"
      from None ok Inr assms(1) c obtain w4 where
        st: "start_try e m1 (w2\<lparr>cwd := wd\<rparr>) = Some (r, m', w4)" and w': "w' = restore_cwd m' w4"
        by (auto simp: start_def Let_def m1_def split: option.splits)
      from start_try_original_cwd[OF st] have "original_cwd m' = Some (cwd w)"
        by (simp add: m1_def c2)
      with w' assms(2) show ?thesis by (simp add: restore_cwd_def)
    qed
  qed
qed

text \<open>
  The three ways out of \<^verbatim>\<open>start\<close> after the spawn: the child is ready, the child has
  died, the timeout has passed.
\<close>

theorem start_restores_cwd_witness:
  "cwd world0 \<noteq> []
   \<and> (\<exists>m' w'. start healthy mgr0 world0 = Some (Inr (), m', w') \<and> cwd w' = cwd world0)
   \<and> (\<exists>x m' w'. start crashing mgr0 world0 = Some (Inl x, m', w') \<and> cwd w' = cwd world0)
   \<and> (\<exists>x m' w'. start late_listener mgr0 world0 = Some (Inl x, m', w') \<and> cwd w' = cwd world0)"
proof -
  have nonempty: "cwd world0 \<noteq> []" by (simp add: world0_def)
  obtain m1 w1 where r1: "start healthy mgr0 world0 = Some (Inr (), m1, w1)"
    by (simp add: run_defs fixture_defs)
  obtain x2 m2 w2 where r2: "start crashing mgr0 world0 = Some (Inl x2, m2, w2)"
    by (simp add: run_defs fixture_defs)
  obtain x3 m3 w3 where r3: "start late_listener mgr0 world0 = Some (Inl x3, m3, w3)"
    by (simp add: run_defs fixture_defs)
  show ?thesis
    using nonempty r1 r2 r3
      start_restores_cwd[OF r1 nonempty] start_restores_cwd[OF r2 nonempty]
      start_restores_cwd[OF r3 nonempty]
    by simp
qed
subsection \<open>Substrings\<close>

text \<open>\<open>str_in\<close> is the substring test: some text before, the needle, some text after.\<close>

lemma starts_with_iff: "starts_with n h \<longleftrightarrow> (\<exists>b. h = n @ b)"
  by (induction n h rule: starts_with.induct) auto

lemma str_in_iff: "str_in n h \<longleftrightarrow> (\<exists>a b. h = a @ n @ b)"
proof (induction h)
  case Nil
  then show ?case by simp
next
  case (Cons c cs)
  show ?case
  proof
    assume "str_in n (c # cs)"
    then consider "starts_with n (c # cs)" | "str_in n cs" by auto
    then show "\<exists>a b. c # cs = a @ n @ b"
    proof cases
      case 1
      then obtain b where "c # cs = n @ b" by (auto simp: starts_with_iff)
      then have "c # cs = [] @ n @ b" by simp
      then show ?thesis by blast
    next
      case 2
      with Cons.IH obtain a b where "cs = a @ n @ b" by blast
      then have "c # cs = (c # a) @ n @ b" by simp
      then show ?thesis by blast
    qed
  next
    assume "\<exists>a b. c # cs = a @ n @ b"
    then obtain a b where ab: "c # cs = a @ n @ b" by blast
    show "str_in n (c # cs)"
    proof (cases a)
      case Nil
      with ab have "starts_with n (c # cs)" by (auto simp: starts_with_iff)
      then show ?thesis by simp
    next
      case (Cons a0 as)
      with ab have "cs = as @ n @ b" by simp
      with Cons.IH have "str_in n cs" by blast
      then show ?thesis by simp
    qed
  qed
qed

lemma str_in_middle: "str_in n (a @ n @ b)"
  by (auto simp: str_in_iff)

subsection \<open>Conflict reclamation\<close>

text \<open>
  Every process that reclamation kills runs the launcher (by its command line) and has a
  working directory that contains the endpoint directory, or is contained in it, as a
  string.
\<close>

lemma reap_scan_sound:
  "k \<in> set (fst (reap_scan d ps)) \<Longrightarrow>
   \<exists>q \<in> set ps. pid q = k \<and> is_launcher (cmdline q) \<and> (\<exists>c. pcwd q = Some c \<and> dir_match d c)"
  by (induction d ps rule: reap_scan.induct)
     (auto split: if_splits option.splits kill_reaction.splits)

lemma kill_existing_keeps:
  "q \<in> set (procs w) \<Longrightarrow> pid q \<notin> set (killed_by m w) \<Longrightarrow>
   q \<in> set (procs (kill_existing_processes m w))"
  by (auto simp: kill_existing_processes_def killed_by_def logmsg_def Let_def
           split: prod.splits option.splits)

text \<open>
  What the test spares: a process whose working directory neither contains the endpoint
  directory of the reclaiming manager as a substring nor occurs in it as one is not
  killed, and runs afterwards.
\<close>

lemma reclamation_spares_unrelated_cwd:
  assumes "distinct (map pid (procs w))"
    and "q \<in> set (procs w)"
    and "process other = Some (pid q)"
    and "pcwd q = Some c"
    and "\<not> str_in (socket_dir m) c"
    and "\<not> str_in c (socket_dir m)"
  shows "pid q \<notin> set (killed_by m w) \<and> is_running other (kill_existing_processes m w)"
proof -
  have nk: "pid q \<notin> set (killed_by m w)"
  proof
    assume "pid q \<in> set (killed_by m w)"
    then obtain q' c' where q': "q' \<in> set (procs w)" "pid q' = pid q"
        "pcwd q' = Some c'" "dir_match (socket_dir m) c'"
      unfolding killed_by_def using reap_scan_sound by blast
    from assms(1,2) q'(1,2) have "q' = q"
      by (meson distinct_map inj_onD)
    with q'(3,4) assms(4,5,6) show False by (simp add: dir_match_def)
  qed
  with assms(2) have "q \<in> set (procs (kill_existing_processes m w))"
    by (rule kill_existing_keeps)
  then have "alive (pid q) (kill_existing_processes m w)"
    by (auto simp: alive_def list_ex_iff)
  with nk assms(3) show ?thesis by (simp add: is_running_def)
qed

text \<open>
  Claim C4 fails on the code. The comment in \<^verbatim>\<open>_kill_existing_processes\<close> says
  "Only kill processes in the same socket directory to avoid killing other instances",
  but the test is \<^verbatim>\<open>my_socket_dir in proc_cwd or proc_cwd in my_socket_dir\<close>, on strings.
  The endpoint directories \<^verbatim>\<open>/tmp/pg\<close> and \<^verbatim>\<open>/tmp/pg2\<close> of the two managers are distinct,
  and the child of the second works in \<^verbatim>\<open>/tmp/pg2\<close>, which is not the endpoint directory
  of the first; yet \<^verbatim>\<open>/tmp/pg\<close> occurs in \<^verbatim>\<open>/tmp/pg2\<close>, and the reclamation of the first
  manager kills the running child of the second.
\<close>

theorem reclamation_kills_other_instance:
  "socket_dir mgrA = ''/tmp/pg'' \<and> socket_dir mgrB = ''/tmp/pg2''
   \<and> socket_dir mgrA \<noteq> socket_dir mgrB
   \<and> process mgrB = Some (pid childB)
   \<and> pcwd childB = Some ''/tmp/pg2''
   \<and> pcwd childB \<noteq> Some (socket_dir mgrA)
   \<and> is_running mgrB worldB
   \<and> killed_by mgrA worldB = [7]
   \<and> \<not> is_running mgrB (kill_existing_processes mgrA worldB)"
  by (simp add: run_defs fixture_defs)

subsection \<open>\<^verbatim>\<open>stop\<close>\<close>

lemma proc_wait_frame:
  "proc_wait t d p w = (r, w') \<Longrightarrow>
   files w' = files w \<and> clock w' \<le> clock w + t \<and> set (log w) \<subseteq> set (log w')"
  by (auto simp: proc_wait_def reap_def split: option.splits if_splits)

lemma send_signal_frame: "send_signal x w = (r, w') \<Longrightarrow> w' = w"
  by (auto simp: send_signal_def split: option.splits)

lemma stop_try_frame:
  "stop_try e p w = (r, w') \<Longrightarrow> files w' = files w \<and> clock w' \<le> clock w + 7000"
  unfolding stop_try_def Let_def
  by (fastforce split: prod.splits sum.splits if_splits
        dest!: proc_wait_frame send_signal_frame)

text \<open>
  What \<^verbatim>\<open>stop\<close> does whenever the test \<^verbatim>\<open>socket_path.exists()\<close> of the cleanup returns,
  or no cleanup is configured: it returns normally; without a handle it changes nothing;
  with one, whatever the terminate, wait and kill sequence raises is logged by the
  handler, the handle is cleared, and the endpoint file is gone when cleanup is
  configured and its removal succeeds. The call takes at most the two bounded waits.
\<close>

lemma stop_returns_when_exists_returns:
  assumes "exists_exc e = None \<or> \<not> cleanup_on_exit (config m)"
  shows "\<exists>w'. stop e m w = (Inr (), m\<lparr>process := None\<rparr>, w')
     \<and> (if process m = None then w' = w else True)
     \<and> (case process m of
          None \<Rightarrow> True
        | Some p \<Rightarrow>
            (case fst (stop_try e p w) of
               Inl x \<Rightarrow> ''Error stopping PGlite'' \<in> set (log w')
             | Inr u \<Rightarrow> True))
     \<and> files w' = (if process m \<noteq> None \<and> cleanup_on_exit (config m) \<and> \<not> unlink_fails e
                   then files w - {socket_path (config m)} else files w)
     \<and> clock w' \<le> clock w + 7000"
proof (cases "process m")
  case None
  then show ?thesis by (simp add: stop_def)
next
  case (Some p)
  obtain r w1 where st: "stop_try e p w = (r, w1)" by (cases "stop_try e p w")
  from stop_try_frame[OF st] have fr: "files w1 = files w" "clock w1 \<le> clock w + 7000"
    by simp_all
  define w2 where "w2 = (case r of Inl x \<Rightarrow> logmsg ''Error stopping PGlite'' w1 | Inr u \<Rightarrow> w1)"
  have w2: "files w2 = files w" "clock w2 \<le> clock w + 7000"
    using fr by (simp_all add: w2_def split: sum.splits)
  have lg: "case r of Inl x \<Rightarrow> ''Error stopping PGlite'' \<in> set (log w2) | Inr u \<Rightarrow> True"
    by (simp add: w2_def logmsg_def split: sum.splits)
  show ?thesis
  proof (cases "cleanup_on_exit (config m)")
    case False
    have run: "stop e m w = (Inr (), m\<lparr>process := None\<rparr>, w2)"
      using Some st False by (simp add: stop_def Let_def w2_def)
    show ?thesis using Some st run lg w2 False by simp
  next
    case True
    with assms have ex: "exists_exc e = None" by simp
    from cleanup_socket_returns[OF ex, of "m\<lparr>process := None\<rparr>" w2]
    obtain w3 where c: "cleanup_socket e (m\<lparr>process := None\<rparr>) w2 = (Inr (), w3)"
      and f3: "files w3 = (if unlink_fails e then files w2
                           else files w2 - {socket_path (config m)})"
      by auto
    from cleanup_socket_frame[OF c] have c3: "clock w3 = clock w2"
      and l23: "set (log w2) \<subseteq> set (log w3)" by simp_all
    have run: "stop e m w = (Inr (), m\<lparr>process := None\<rparr>, w3)"
      using Some st True c by (simp add: stop_def Let_def w2_def)
    from lg l23 have l3:
      "case r of Inl x \<Rightarrow> ''Error stopping PGlite'' \<in> set (log w3) | Inr u \<Rightarrow> True"
      by (auto split: sum.splits)
    show ?thesis using Some st run l3 f3 c3 w2 True by simp
  qed
qed

text \<open>
  Claim C5 fails on the code. \<^verbatim>\<open>_cleanup_socket\<close> wraps \<^verbatim>\<open>unlink()\<close> in
  \<^verbatim>\<open>try ... except Exception\<close> and logs a warning, but calls \<^verbatim>\<open>socket_path.exists()\<close>
  before the \<^verbatim>\<open>try\<close> statement, and \<^verbatim>\<open>stop\<close> calls \<^verbatim>\<open>_cleanup_socket\<close> in its
  \<^verbatim>\<open>finally\<close> clause. With cleanup configured and an endpoint path on which
  \<^verbatim>\<open>exists()\<close> raises \<^verbatim>\<open>PermissionError\<close>, \<^verbatim>\<open>stop\<close> on a running manager stops the child,
  clears the handle and raises that error. On the same manager and world \<^verbatim>\<open>stop\<close> returns
  normally when \<^verbatim>\<open>exists()\<close> returns, also when \<^verbatim>\<open>terminate()\<close> raises and the unlink
  fails.
\<close>

theorem stop_raises_when_exists_raises:
  "cleanup_on_exit (config mgrB) \<and> is_running mgrB worldB
   \<and> fst (stop unsearchable mgrB worldB) = Inl PermissionError
   \<and> process (fst (snd (stop unsearchable mgrB worldB))) = None
   \<and> \<not> is_running mgrB (snd (snd (stop unsearchable mgrB worldB)))
   \<and> fst (stop healthy mgrB worldB) = Inr ()
   \<and> fst (stop unsignalable mgrB worldB) = Inr ()"
  by (simp add: run_defs fixture_defs)

subsection \<open>The accessors\<close>

text \<open>
  Claim C7. Each accessor raises the "not running" error exactly when \<^verbatim>\<open>is_running()\<close>
  is false, and returns the string made by the configuration otherwise, which contains
  the endpoint path; \<^verbatim>\<open>is_running()\<close> holds exactly when there is a handle and the
  process it names is among the live processes.
\<close>

theorem accessors_gated_by_is_running:
  "get_connection_string f m w =
     (if is_running m w then Inr (config_get_connection_string f (config m))
      else Inl not_running)
   \<and> get_dsn f m w =
     (if is_running m w then Inr (config_get_dsn f (config m)) else Inl not_running)
   \<and> get_psycopg_uri f m w =
     (if is_running m w then Inr (config_get_psycopg_uri f (config m)) else Inl not_running)
   \<and> str_in (socket_path (config m)) (config_get_connection_string f (config m))
   \<and> str_in (socket_path (config m)) (config_get_dsn f (config m))
   \<and> str_in (socket_path (config m)) (config_get_psycopg_uri f (config m))
   \<and> is_running m w = (\<exists>p. process m = Some p \<and> p \<in> pid ` set (procs w))"
  by (auto simp: get_connection_string_def get_dsn_def get_psycopg_uri_def
        config_get_connection_string_def config_get_dsn_def config_get_psycopg_uri_def
        str_in_middle is_running_def alive_def list_ex_iff split: option.splits)

subsection \<open>\<^verbatim>\<open>wait_for_ready_basic\<close>\<close>







subsection \<open>The readiness loop\<close>



lemma died_output_communicate_cases:
  "died_output (fst (communicate e 2000 w)) = Inr (diagnostic e)
   \<or> died_output (fst (communicate e 2000 w)) = Inl UnicodeDecodeError"
  by (simp add: communicate_def died_output_def diagnostic_def split: option.splits)


lemma sleep_tick_clock [simp]: "clock (sleep_tick e m p t0 ms w) = clock w + ms"
  by (simp add: sleep_tick_def Let_def)


lemma logmsg_alive [simp]: "alive p (logmsg s w) = alive p w"
  by (simp add: alive_def)

text \<open>
  The only exceptions the loop raises are the one for a child that has died and the one
  of an output that cannot be decoded.
\<close>

lemma wait_loop_raised:
  "wait_loop e m p t0 rl w = (Raised x, w') \<Longrightarrow>
   x = RuntimeError (died_message (diagnostic e)) \<or> x = UnicodeDecodeError"
proof (induction e m p t0 rl w rule: wait_loop.induct)
  case (1 e m p t0 rl w)
  show ?case
  proof (cases "int (clock w) - int t0 < 1000 * timeout (config m)")
    case False
    with "1.prems" show ?thesis by (subst (asm) wait_loop.simps) simp
  next
    case True
    show ?thesis
    proof (cases "alive p w")
      case False
      with True "1.prems" died_output_communicate_cases[of e w] show ?thesis
        by (subst (asm) wait_loop.simps) (auto split: prod.splits sum.splits)
    next
      case al: True
      show ?thesis
      proof (cases "socket_path (config m) \<in> files w \<and> \<not> rl")
        case probe: True
        with True al "1.prems" "1.IH"(1) show ?thesis
          by (subst (asm) wait_loop.simps) (auto simp: Let_def split: if_splits)
      next
        case False
        with True al "1.prems" "1.IH"(2) show ?thesis
          by (subst (asm) wait_loop.simps) (auto simp: Let_def split: if_splits)
      qed
    qed
  qed
qed

text \<open>
  Once \<^verbatim>\<open>ready_logged\<close> is set, the loop is never left through \<^verbatim>\<open>break\<close>: the flag
  guards the connection test as well as the log line, and it is set before the test.
\<close>

lemma wait_loop_flag_set_never_breaks:
  "rl \<Longrightarrow> fst (wait_loop e m p t0 rl w) \<noteq> Broke"
proof (induction e m p t0 rl w rule: wait_loop.induct)
  case (1 e m p t0 rl w)
  show ?case
  proof (cases "int (clock w) - int t0 < 1000 * timeout (config m)")
    case False
    then show ?thesis by (subst wait_loop.simps) simp
  next
    case True
    show ?thesis
    proof (cases "alive p w")
      case False
      with True show ?thesis
        by (subst wait_loop.simps) (auto split: prod.splits sum.splits)
    next
      case al: True
      with True "1.prems" "1.IH"(2) show ?thesis
        by (subst wait_loop.simps) (auto simp: Let_def)
    qed
  qed
qed

text \<open>
  Claim C1 fails on the code. The endpoint file of this child exists from the spawn on; a
  connect fails at the first test and would succeed from 500 ms on. The loop tests once,
  never again, and \<^verbatim>\<open>start\<close> raises the timeout error after two seconds, having
  terminated a child that was ready.
\<close>

theorem failed_probe_is_never_retried:
  "\<not> connect_ok late_listener 0
   \<and> connect_ok late_listener 500 \<and> connect_ok late_listener 1000
   \<and> connect_ok late_listener 1500
   \<and> (case start late_listener mgr0 world0 of
        Some (Inl x, m1, w1) \<Rightarrow>
          x = RuntimeError ''PGlite server failed to start within 2 seconds''
          \<and> socket_path cfg0 \<in> files w1
          \<and> \<not> is_running m1 w1
          \<and> log w1 = [''Starting PGlite server...'',
                      ''PGlite socket created, server should be ready...'',
                      ''PGlite server startup timeout, terminating...'']
      | _ \<Rightarrow> False)"
  by (simp add: run_defs fixture_defs char_of_50)

subsection \<open>A child that dies during startup\<close>








subsection \<open>Starting again\<close>

text \<open>
  Claim C2 fails on the code. The child of the first \<^verbatim>\<open>start\<close> dies and the call raises;
  \<^verbatim>\<open>self.process\<close> keeps the handle of the dead child, so the second \<^verbatim>\<open>start\<close>, for which
  a healthy child is ready to run, logs that the process is already running and returns
  without reclamation, cleanup or spawn: nothing but the log changes, no process runs, and
  the call reports no error.
\<close>

theorem start_after_failed_start_does_nothing:
  "(case start crashing mgr0 world0 of
      Some (Inl x, m1, w1) \<Rightarrow>
        x = RuntimeError ''PGlite process died during startup. Output: boom''
        \<and> process m1 = Some 1
        \<and> \<not> is_running m1 w1
        \<and> start healthy m1 w1 = Some (Inr (), m1, logmsg ''PGlite process already running'' w1)
        \<and> procs (logmsg ''PGlite process already running'' w1) = []
        \<and> \<not> is_running m1 (logmsg ''PGlite process already running'' w1)
    | _ \<Rightarrow> False)"
  by (simp add: run_defs fixture_defs)

text \<open>
  Claim C3 fails on the code, by the same test \<^verbatim>\<open>self.process is not None\<close>. A first
  \<^verbatim>\<open>start\<close> succeeds; the child then crashes (it leaves the process table). The handle
  exists and the process is not alive, yet \<^verbatim>\<open>start\<close> declines to spawn, and so does
  \<^verbatim>\<open>restart\<close>, which does not call \<^verbatim>\<open>stop\<close> for a process that is not running: after
  either call no child runs.
\<close>

theorem start_declines_with_dead_handle:
  "(case start healthy mgr0 world0 of
      Some (Inr u, m1, w1) \<Rightarrow>
        is_running m1 w1
        \<and> length (procs w1) = 1
        \<and> start healthy m1 w1 = Some (Inr (), m1, logmsg ''PGlite process already running'' w1)
        \<and> \<not> is_running m1 (w1\<lparr>procs := []\<rparr>)
        \<and> start healthy m1 (w1\<lparr>procs := []\<rparr>)
            = Some (Inr (), m1, logmsg ''PGlite process already running'' (w1\<lparr>procs := []\<rparr>))
        \<and> restart healthy healthy m1 (w1\<lparr>procs := []\<rparr>)
            = Some (Inr (), m1, logmsg ''PGlite process already running'' (w1\<lparr>procs := []\<rparr>))
        \<and> procs (logmsg ''PGlite process already running'' (w1\<lparr>procs := []\<rparr>)) = []
    | _ \<Rightarrow> False)"
  by (simp add: run_defs fixture_defs)

subsection \<open>The timeout\<close>

text \<open>
  Claim C6 fails on the code. After the timeout \<^verbatim>\<open>start\<close> terminates the child, waits
  five seconds, kills it and then calls \<^verbatim>\<open>self.process.wait()\<close> with no timeout, where
  \<^verbatim>\<open>stop\<close> waits two seconds at most. For a child that never creates the endpoint file,
  never exits on its own and is not reaped after the kill, \<^verbatim>\<open>start\<close> never returns,
  while \<^verbatim>\<open>stop\<close> on the same child returns after seven seconds.
\<close>

theorem start_hangs_on_unreaped_child:
  "start stuck mgr0 world0 = None
   \<and> fst (stop stuck mgrB worldB) = Inr ()
   \<and> clock (snd (snd (stop stuck mgrB worldB))) = clock worldB + 7000"
  by (simp add: run_defs fixture_defs)

end
